theory Spec2Isabelle
  imports Complex_Main
begin

section \<open>Values of the numeric layer\<close>

text \<open>
  The program computes on numpy \<open>float64\<close> arrays. A float is read here as an exact real
  number or one of the three exceptional values of IEEE 754, so that a division by
  zero, an \<open>arccos\<close> outside \<open>[-1,1]\<close> and a \<open>sqrt\<close> of a negative number are values of
  the model, as they are in numpy (which warns and continues; it does not raise).
  Rounding and overflow of finite results are not part of this reading, and zero carries
  no sign (it divides like \<open>+0.0\<close>).
\<close>

datatype npfloat = Fin real | PInf | NInf | NaN

fun is_neg :: "npfloat \<Rightarrow> bool" where
  "is_neg (Fin x) = (x < 0)"
| "is_neg NInf = True"
| "is_neg PInf = False"
| "is_neg NaN = False"

fun is_zero :: "npfloat \<Rightarrow> bool" where
  "is_zero (Fin x) = (x = 0)"
| "is_zero PInf = False"
| "is_zero NInf = False"
| "is_zero NaN = False"

fun fneg :: "npfloat \<Rightarrow> npfloat" where
  "fneg (Fin x) = Fin (- x)"
| "fneg PInf = NInf"
| "fneg NInf = PInf"
| "fneg NaN = NaN"

fun fadd :: "npfloat \<Rightarrow> npfloat \<Rightarrow> npfloat" where
  "fadd (Fin x) (Fin y) = Fin (x + y)"
| "fadd NaN b = NaN"
| "fadd a NaN = NaN"
| "fadd PInf NInf = NaN"
| "fadd NInf PInf = NaN"
| "fadd PInf b = PInf"
| "fadd a PInf = PInf"
| "fadd NInf b = NInf"
| "fadd a NInf = NInf"

definition fsub :: "npfloat \<Rightarrow> npfloat \<Rightarrow> npfloat" where
  "fsub a b = fadd a (fneg b)"

fun fmul :: "npfloat \<Rightarrow> npfloat \<Rightarrow> npfloat" where
  "fmul (Fin x) (Fin y) = Fin (x * y)"
| "fmul NaN b = NaN"
| "fmul a NaN = NaN"
| "fmul a b =
     (if is_zero a \<or> is_zero b then NaN
      else if is_neg a = is_neg b then PInf else NInf)"

fun fdiv :: "npfloat \<Rightarrow> npfloat \<Rightarrow> npfloat" where
  "fdiv (Fin x) (Fin y) =
     (if y = 0 then (if x = 0 then NaN else if 0 < x then PInf else NInf)
      else Fin (x / y))"
| "fdiv NaN b = NaN"
| "fdiv a NaN = NaN"
| "fdiv (Fin x) b = Fin 0"
| "fdiv a (Fin y) = (if is_neg a = (y < 0) then PInf else NInf)"
| "fdiv a b = NaN"

text \<open>\<open>x**2\<close> on a float array is the product of the element with itself.\<close>

definition fsq :: "npfloat \<Rightarrow> npfloat" where
  "fsq a = fmul a a"

fun fabs :: "npfloat \<Rightarrow> npfloat" where
  "fabs (Fin x) = Fin \<bar>x\<bar>"
| "fabs PInf = PInf"
| "fabs NInf = PInf"
| "fabs NaN = NaN"

fun farccos :: "npfloat \<Rightarrow> npfloat" where
  "farccos (Fin x) = (if - 1 \<le> x \<and> x \<le> 1 then Fin (arccos x) else NaN)"
| "farccos a = NaN"

fun fsqrt :: "npfloat \<Rightarrow> npfloat" where
  "fsqrt (Fin x) = (if 0 \<le> x then Fin (sqrt x) else NaN)"
| "fsqrt PInf = PInf"
| "fsqrt a = NaN"

text \<open>Comparisons: every comparison with \<open>NaN\<close> is false.\<close>

fun fle :: "npfloat \<Rightarrow> npfloat \<Rightarrow> bool" where
  "fle (Fin x) (Fin y) = (x \<le> y)"
| "fle NaN b = False"
| "fle a NaN = False"
| "fle NInf b = True"
| "fle a PInf = True"
| "fle a b = False"

fun flt :: "npfloat \<Rightarrow> npfloat \<Rightarrow> bool" where
  "flt (Fin x) (Fin y) = (x < y)"
| "flt NaN b = False"
| "flt a NaN = False"
| "flt PInf b = False"
| "flt a NInf = False"
| "flt a b = True"

text \<open>
  What a caller passes for a numeric or time argument: one value or a one-dimensional
  sequence of values. The result of \<open>calculate_obscuration\<close> has the same two forms.
\<close>

datatype 'a pyval = Scalar 'a | Array "'a list"

datatype py_error = IndexError | ValueError

section \<open>The vectorisation layer\<close>

text \<open>\<open>array\<close>: \<open>np.array(val)\<close>, a value of shape \<open>()\<close> reshaped to \<open>(1,)\<close>.\<close>

fun array :: "'a pyval \<Rightarrow> 'a list" where
  "array (Scalar v) = [v]"
| "array (Array vs) = vs"

text \<open>
  \<open>conform\<close>: when the shapes differ, \<open>np.ones(arr_1.shape) * arr_0[0]\<close>; reading element
  \<open>0\<close> of an empty array raises \<open>IndexError\<close>.
\<close>

definition conform :: "npfloat list \<Rightarrow> 'b list \<Rightarrow> py_error + npfloat list" where
  "conform arr_0 arr_1 =
     (if length arr_0 \<noteq> length arr_1 then
        (case arr_0 of
           [] \<Rightarrow> Inl IndexError
         | x # _ \<Rightarrow> Inr (replicate (length arr_1) (fmul (Fin 1) x)))
      else Inr arr_0)"

section \<open>The geometry kernel\<close>

text \<open>
  The definitions of this section are the exact reading of the source lines: every
  operation returns the exact real result. The program rounds each operation, and at the
  boundaries of the masks the rounding decides which mask an element falls in and whether
  an \<open>arccos\<close> argument stays within \<open>[-1,1]\<close>; a later section reads the same lines with
  every operation rounded (\<open>raw_area_b64\<close>, \<open>area_intersect_elem_b64\<close>), and the two readings
  differ there. A theorem about \<open>raw_area\<close>, \<open>area_intersect\<close> or \<open>calculate_obscuration\<close> is
  a statement about exact arithmetic.
\<close>

definition raw_area :: "npfloat \<Rightarrow> npfloat \<Rightarrow> npfloat \<Rightarrow> npfloat" where
  "raw_area R r d =
     fsub
       (fadd
          (fmul (fsq r)
             (farccos (fdiv (fsub (fadd (fsq d) (fsq r)) (fsq R)) (fmul (fmul (Fin 2) d) r))))
          (fmul (fsq R)
             (farccos (fdiv (fsub (fadd (fsq d) (fsq R)) (fsq r)) (fmul (fmul (Fin 2) d) R)))))
       (fmul (Fin (1/2))
          (fsqrt
             (fmul
                (fmul
                   (fmul (fadd (fadd (fneg d) r) R) (fsub (fadd d r) R))
                   (fadd (fsub d r) R))
                (fadd (fadd d r) R))))"

text \<open>
  One element of \<open>area_intersect\<close>: the array \<open>A\<close> starts as \<open>NaN\<close> and the four masked
  assignments are made in the order of the source, a later one overwriting an earlier
  one where two masks hold.
\<close>

definition area_intersect_elem :: "npfloat \<Rightarrow> npfloat \<Rightarrow> npfloat \<Rightarrow> npfloat" where
  "area_intersect_elem r_sun r_moon d =
     (let intersect = fle d (fadd r_sun r_moon);
          inset = fle d (fabs (fsub r_sun r_moon));
          A0 = NaN;
          tf_none = (\<not> intersect);
          A1 = (if tf_none then Fin 0 else A0);
          tf_annular = (inset \<and> flt r_moon r_sun);
          A2 = (if tf_annular
                then fsub (fmul (Fin pi) (fsq r_sun))
                       (fsub (fmul (Fin pi) (fsq r_sun)) (fmul (Fin pi) (fsq r_moon)))
                else A1);
          tf_total = (inset \<and> fle r_sun r_moon);
          A3 = (if tf_total then fmul (Fin pi) (fsq r_moon) else A2);
          tf = (\<not> (tf_none \<or> tf_annular \<or> tf_total));
          A4 = (if tf then raw_area r_sun r_moon d else A3)
      in A4)"

text \<open>The length two one-dimensional shapes broadcast to, if they do.\<close>

definition broadcast :: "nat \<Rightarrow> nat \<Rightarrow> nat option" where
  "broadcast n m =
     (if n = m then Some n else if n = 1 then Some m else if m = 1 then Some n else None)"

fun zip3 :: "'a list \<Rightarrow> 'b list \<Rightarrow> 'c list \<Rightarrow> ('a \<times> 'b \<times> 'c) list" where
  "zip3 xs ys zs = zip xs (zip ys zs)"

text \<open>
  \<open>area_intersect\<close> on one-dimensional inputs. The comparisons broadcast their operands
  (\<open>ValueError\<close> when they cannot); \<open>A\<close> has the shape of \<open>r_sun\<close>, and a boolean mask
  indexes \<open>A\<close>, \<open>r_sun\<close>, \<open>r_moon\<close> and \<open>d\<close>, which raises \<open>IndexError\<close> unless the mask has
  the shape of the array it indexes.
\<close>

definition area_intersect ::
  "npfloat pyval \<Rightarrow> npfloat pyval \<Rightarrow> npfloat pyval \<Rightarrow> py_error + npfloat list" where
  "area_intersect r_sun0 r_moon0 d0 =
     (let r_sun = array r_sun0; r_moon = array r_moon0; d = array d0 in
      case broadcast (length r_sun) (length r_moon) of
        None \<Rightarrow> Inl ValueError
      | Some k \<Rightarrow>
          (case broadcast (length d) k of
             None \<Rightarrow> Inl ValueError
           | Some l \<Rightarrow>
               if l \<noteq> length r_sun \<or> l \<noteq> length r_moon \<or> l \<noteq> length d
               then Inl IndexError
               else Inr (map (\<lambda>(s, m, e). area_intersect_elem s m e) (zip3 r_sun r_moon d))))"

section \<open>The angular size converter\<close>

text \<open>
  \<open>apparent_size\<close>: the quotient \<open>R/distance\<close>, read as an angle in radians and converted
  to arc minutes (\<open>10800/\<pi>\<close> arc minutes to a radian). Both lengths are given in
  kilometres here; the unit library that divides and converts them is not part of the
  repository. The function has no other statement: it checks nothing and raises nothing.
\<close>

definition apparent_size :: "npfloat \<Rightarrow> npfloat \<Rightarrow> npfloat" where
  "apparent_size R distance = fmul (fdiv R distance) (Fin (10800 / pi))"

text \<open>\<open>.to(u.degree).value\<close> of an angle in arc minutes.\<close>

definition to_degree :: "npfloat \<Rightarrow> npfloat" where
  "to_degree a = fmul a (Fin (1 / 60))"

section \<open>The obscuration orchestrator\<close>

text \<open>
  Modelled from the spec: the ephemeris collaborator (the astronomy library behind
  \<open>EarthLocation.from_geodetic\<close>, \<open>Time\<close>, \<open>AltAz\<close>, \<open>get_sun\<close>, \<open>get_moon\<close> and
  \<open>separation\<close>), which is not code of the repository. It is a parameter \<open>eph\<close> of the
  model: for one time and one geodetic position (longitude, latitude, height) it gives
  the solar altitude in degrees, the distances of Sun and Moon in kilometres and their
  angular separation in degrees, element by element of the batch.
\<close>

record ephem =
  sun_alt :: npfloat
  sun_distance :: npfloat
  moon_distance :: npfloat
  sep :: npfloat

text \<open>
  Modelled from the spec: the solar radius, a fixed physical constant that the source
  takes from the astronomy library (\<open>constants.R_sun\<close>, nominally 695700 km). The lunar
  radius is the literal of the source. No theorem below depends on the two values
  except through the examples.
\<close>

definition R_sun :: npfloat where
  "R_sun = Fin 695700"

definition R_moon :: npfloat where
  "R_moon = Fin (17371 / 10)"

text \<open>What the function returns: the obscuration, or with \<open>return_dict\<close> the dictionary
  of obscuration, separation and solar elevation.\<close>

datatype obs_result =
  Obsc "npfloat pyval"
| ObscDict "npfloat pyval" "npfloat list" "npfloat list"

fun obsc :: "obs_result \<Rightarrow> npfloat pyval" where
  "obsc (Obsc v) = v"
| "obsc (ObscDict v s a) = v"

text \<open>The angular radii in degrees of one element, as the function computes them.\<close>

definition r_sun_deg :: "ephem \<Rightarrow> npfloat" where
  "r_sun_deg s = to_degree (apparent_size R_sun (sun_distance s))"

definition r_moon_deg :: "ephem \<Rightarrow> npfloat" where
  "r_moon_deg s = to_degree (apparent_size R_moon (moon_distance s))"

text \<open>The obscuration of one element before the horizon cutoff: \<open>A/(np.pi*r_sun_deg**2)\<close>.\<close>

definition obscuration_elem :: "npfloat \<Rightarrow> npfloat \<Rightarrow> npfloat" where
  "obscuration_elem A r = fdiv A (fmul (Fin pi) (fsq r))"

text \<open>The cutoff \<open>obs[tf] = 0\<close> with \<open>tf = sun_aa.alt.value < min_solar_elev_deg\<close>.\<close>

definition horizon_cutoff :: "npfloat \<Rightarrow> npfloat \<Rightarrow> npfloat \<Rightarrow> npfloat" where
  "horizon_cutoff min_solar_elev_deg alt ob =
     (if flt alt min_solar_elev_deg then Fin 0 else ob)"

text \<open>\<open>if len(obs) == 1: obs = float(obs)\<close>.\<close>

definition squeeze :: "npfloat list \<Rightarrow> npfloat pyval" where
  "squeeze obs = (case obs of [x] \<Rightarrow> Scalar x | _ \<Rightarrow> Array obs)"

text \<open>
  The first statements of \<open>calculate_obscuration\<close>: the four arguments as arrays, and
  latitude, longitude and height conformed to the times. The batch lists, per element,
  the time and the position in the order \<open>from_geodetic\<close> takes it (longitude,
  latitude, height).
\<close>

definition observation_batch ::
  "'t pyval \<Rightarrow> npfloat pyval \<Rightarrow> npfloat pyval \<Rightarrow> npfloat pyval \<Rightarrow>
   py_error + ('t \<times> npfloat \<times> npfloat \<times> npfloat) list" where
  "observation_batch date_time0 lat0 lon0 height0 =
     (let date_time = array date_time0 in
      case conform (array lat0) date_time of
        Inl e \<Rightarrow> Inl e
      | Inr lat \<Rightarrow>
     (case conform (array lon0) date_time of
        Inl e \<Rightarrow> Inl e
      | Inr lon \<Rightarrow>
     (case conform (array height0) date_time of
        Inl e \<Rightarrow> Inl e
      | Inr height \<Rightarrow> Inr (zip date_time (zip3 lon lat height)))))"

text \<open>
  \<open>calculate_obscuration\<close> for \<open>loc=None\<close> and \<open>plot_obscuration=None\<close> (the plot is a
  side effect that does not change \<open>obs\<close>).
\<close>

definition calculate_obscuration ::
  "('t \<Rightarrow> npfloat \<Rightarrow> npfloat \<Rightarrow> npfloat \<Rightarrow> ephem) \<Rightarrow>
   't pyval \<Rightarrow> npfloat pyval \<Rightarrow> npfloat pyval \<Rightarrow> npfloat pyval \<Rightarrow> bool \<Rightarrow> npfloat \<Rightarrow>
   py_error + obs_result" where
  "calculate_obscuration eph date_time0 lat0 lon0 height0 return_dict min_solar_elev_deg =
     (case observation_batch date_time0 lat0 lon0 height0 of
        Inl e \<Rightarrow> Inl e
      | Inr batch \<Rightarrow>
         (let smp = map (\<lambda>(t, lo, la, h). eph t lo la h) batch;
              sep_deg = map sep smp
          in case area_intersect (Array (map r_sun_deg smp)) (Array (map r_moon_deg smp))
                    (Array sep_deg) of
               Inl e \<Rightarrow> Inl e
             | Inr A \<Rightarrow>
                 (let obs0 = map (\<lambda>(a, s). obscuration_elem a (r_sun_deg s)) (zip A smp);
                      obs = map (\<lambda>(ob, s). horizon_cutoff min_solar_elev_deg (sun_alt s) ob)
                              (zip obs0 smp);
                      res = squeeze obs
                  in Inr (if return_dict then ObscDict res sep_deg (map sun_alt smp)
                          else Obsc res))))"

text \<open>
  The value the function computes for one element of the batch: geometry, division by
  the solar disk, cutoff.
\<close>

definition geometric_obscuration :: "ephem \<Rightarrow> npfloat" where
  "geometric_obscuration s =
     obscuration_elem (area_intersect_elem (r_sun_deg s) (r_moon_deg s) (sep s)) (r_sun_deg s)"

text \<open>
  Element \<open>i\<close> of a field \<open>a\<close> conformed to length \<open>n\<close>: its own element when the lengths
  agree, its first element otherwise.
\<close>

definition conformed :: "npfloat list \<Rightarrow> nat \<Rightarrow> nat \<Rightarrow> npfloat" where
  "conformed a n i = (if length a = n then a ! i else a ! 0)"

text \<open>An ephemeris that gives the same sample at every time and place, for examples.\<close>

definition fixed_sample :: "ephem \<Rightarrow> nat \<Rightarrow> npfloat \<Rightarrow> npfloat \<Rightarrow> npfloat \<Rightarrow> ephem" where
  "fixed_sample s t lo la h = s"

section \<open>The geometry kernel under binary64 rounding\<close>

text \<open>
  A second reading of the same source lines, for what rounding does to the claims about
  the kernel.
  A finite \<open>float64\<close> is the real number it denotes, and every arithmetic operation of
  the source returns the exact result rounded to the nearest number with 53 significant
  bits, ties to even, as IEEE 754 requires of \<open>+\<close>, \<open>-\<close>, \<open>*\<close> and \<open>/\<close>. A float literal
  such as \<open>0.1\<close> is the rounded decimal. Overflow and subnormal numbers are not modelled
  (the numbers used below are far from both). The results of \<open>arccos\<close> and \<open>sqrt\<close> are
  rounded the same way, which a mathematical library need not do to the last bit: only
  whether a result is \<open>NaN\<close> is read from this model, never its last bit.
\<close>

text \<open>\<open>\<lfloor>log\<^sub>2 n\<rfloor>\<close> for \<open>n \<ge> 1\<close>.\<close>

fun log2n :: "nat \<Rightarrow> nat" where
  "log2n n = (if n < 2 then 0 else Suc (log2n (n div 2)))"

declare log2n.simps [simp del]

text \<open>\<open>2\<^sup>k\<close> for an integer \<open>k\<close>.\<close>

definition pow2 :: "int \<Rightarrow> real" where
  "pow2 k = (if 0 \<le> k then 2 ^ nat k else 1 / 2 ^ nat (- k))"

text \<open>The exponent \<open>e\<close> with \<open>2\<^sup>e \<le> |x| < 2\<^sup>e\<^sup>+\<^sup>1\<close>, for \<open>x \<noteq> 0\<close>.\<close>

definition binade :: "real \<Rightarrow> int" where
  "binade x =
     (if 1 \<le> \<bar>x\<bar> then int (log2n (nat \<lfloor>\<bar>x\<bar>\<rfloor>))
      else - (int (log2n (nat (\<lceil>1 / \<bar>x\<bar>\<rceil> - 1))) + 1))"

text \<open>The nearest integer, a tie going to the even one.\<close>

definition round_half_even :: "real \<Rightarrow> int" where
  "round_half_even q =
     (let f = \<lfloor>q\<rfloor>; r = q - of_int f in
      if r < 1 / 2 then f else if 1 / 2 < r then f + 1 else if even f then f else f + 1)"

text \<open>The nearest number with 53 significant bits.\<close>

definition rne :: "real \<Rightarrow> real" where
  "rne x =
     (if x = 0 then 0
      else (let u = pow2 (binade x - 52) in of_int (round_half_even (x / u)) * u))"

text \<open>The operations of the float model, each followed by the rounding.\<close>

definition round_b64 :: "npfloat \<Rightarrow> npfloat" where
  "round_b64 a = (case a of Fin x \<Rightarrow> Fin (rne x) | _ \<Rightarrow> a)"

definition add64 :: "npfloat \<Rightarrow> npfloat \<Rightarrow> npfloat" where
  "add64 a b = round_b64 (fadd a b)"

definition sub64 :: "npfloat \<Rightarrow> npfloat \<Rightarrow> npfloat" where
  "sub64 a b = round_b64 (fsub a b)"

definition mul64 :: "npfloat \<Rightarrow> npfloat \<Rightarrow> npfloat" where
  "mul64 a b = round_b64 (fmul a b)"

definition div64 :: "npfloat \<Rightarrow> npfloat \<Rightarrow> npfloat" where
  "div64 a b = round_b64 (fdiv a b)"

definition sq64 :: "npfloat \<Rightarrow> npfloat" where
  "sq64 a = mul64 a a"

definition arccos64 :: "npfloat \<Rightarrow> npfloat" where
  "arccos64 a = round_b64 (farccos a)"

definition sqrt64 :: "npfloat \<Rightarrow> npfloat" where
  "sqrt64 a = round_b64 (fsqrt a)"

text \<open>
  \<open>np.pi\<close> is a double, \<open>3.141592653589793\<close>, that is \<open>0x1.921fb54442d18p+1\<close>:
  \<open>884279719003555 / 2\<^sup>4\<^sup>8\<close>.
\<close>

definition np_pi :: real where
  "np_pi = 884279719003555 / 2 ^ 48"

text \<open>\<open>raw_area\<close> and one element of \<open>area_intersect\<close>, every operation rounded.\<close>

definition raw_area_b64 :: "npfloat \<Rightarrow> npfloat \<Rightarrow> npfloat \<Rightarrow> npfloat" where
  "raw_area_b64 R r d =
     sub64
       (add64
          (mul64 (sq64 r)
             (arccos64 (div64 (sub64 (add64 (sq64 d) (sq64 r)) (sq64 R)) (mul64 (mul64 (Fin 2) d) r))))
          (mul64 (sq64 R)
             (arccos64 (div64 (sub64 (add64 (sq64 d) (sq64 R)) (sq64 r)) (mul64 (mul64 (Fin 2) d) R)))))
       (mul64 (Fin (1/2))
          (sqrt64
             (mul64
                (mul64
                   (mul64 (add64 (add64 (fneg d) r) R) (sub64 (add64 d r) R))
                   (add64 (sub64 d r) R))
                (add64 (add64 d r) R))))"

definition area_intersect_elem_b64 :: "npfloat \<Rightarrow> npfloat \<Rightarrow> npfloat \<Rightarrow> npfloat" where
  "area_intersect_elem_b64 r_sun r_moon d =
     (let intersect = fle d (add64 r_sun r_moon);
          inset = fle d (fabs (sub64 r_sun r_moon));
          A0 = NaN;
          tf_none = (\<not> intersect);
          A1 = (if tf_none then Fin 0 else A0);
          tf_annular = (inset \<and> flt r_moon r_sun);
          A2 = (if tf_annular
                then sub64 (mul64 (Fin np_pi) (sq64 r_sun))
                       (sub64 (mul64 (Fin np_pi) (sq64 r_sun)) (mul64 (Fin np_pi) (sq64 r_moon)))
                else A1);
          tf_total = (inset \<and> fle r_sun r_moon);
          A3 = (if tf_total then mul64 (Fin np_pi) (sq64 r_moon) else A2);
          tf = (\<not> (tf_none \<or> tf_annular \<or> tf_total));
          A4 = (if tf then raw_area_b64 r_sun r_moon d else A3)
      in A4)"

section \<open>The lens formula over the reals\<close>

text \<open>
  The product under the square root of \<open>raw_area\<close> and the value of \<open>raw_area\<close> as a real
  number, where every operation of it is defined.
\<close>

definition heron :: "real \<Rightarrow> real \<Rightarrow> real \<Rightarrow> real" where
  "heron R r d = (- d + r + R) * (d + r - R) * (d - r + R) * (d + r + R)"

definition lens :: "real \<Rightarrow> real \<Rightarrow> real \<Rightarrow> real" where
  "lens R r d =
     r * r * arccos ((d * d + r * r - R * R) / (2 * d * r))
     + R * R * arccos ((d * d + R * R - r * r) / (2 * d * R))
     - 1 / 2 * sqrt (heron R r d)"

text \<open>The area \<open>area_intersect\<close> computes for real, non-negative radii and separation.\<close>

definition area_real :: "real \<Rightarrow> real \<Rightarrow> real \<Rightarrow> real" where
  "area_real s m d =
     (if d \<le> \<bar>s - m\<bar> then pi * (m * m) else if s + m < d then 0 else lens s m d)"

section \<open>Analysis of the lens formula\<close>

lemma heron_nonneg:
  assumes "0 \<le> R" "0 \<le> r" "\<bar>R - r\<bar> \<le> d" "d \<le> R + r"
  shows "0 \<le> heron R r d"
proof -
  have "0 \<le> - d + r + R" "0 \<le> d + r - R" "0 \<le> d - r + R" "0 \<le> d + r + R"
    using assms by linarith+
  then show ?thesis unfolding heron_def by (intro mult_nonneg_nonneg)
qed

lemma heron_pos:
  assumes "0 < R" "0 < r" "\<bar>R - r\<bar> < d" "d < R + r"
  shows "0 < heron R r d"
proof -
  have "0 < - d + r + R" "0 < d + r - R" "0 < d - r + R" "0 < d + r + R"
    using assms by linarith+
  then show ?thesis unfolding heron_def by (intro mult_pos_pos)
qed

lemma heron_eq: "heron R r d = (2 * d * r)\<^sup>2 - (d * d + r * r - R * R)\<^sup>2"
  unfolding heron_def by (simp add: power2_eq_square algebra_simps)

lemma heron_sym: "heron R r d = heron r R d"
  unfolding heron_def by (simp add: algebra_simps)

lemma acos_arg_bounds:
  assumes "0 < r" "0 < d" "0 \<le> heron R r d"
  shows "- 1 \<le> (d * d + r * r - R * R) / (2 * d * r)" "(d * d + r * r - R * R) / (2 * d * r) \<le> 1"
proof -
  have pos: "0 < 2 * d * r" using assms by simp
  have "(d * d + r * r - R * R)\<^sup>2 \<le> (2 * d * r)\<^sup>2"
    using assms(3) heron_eq [of R r d] by simp
  then have "\<bar>d * d + r * r - R * R\<bar> \<le> \<bar>2 * d * r\<bar>"
    by (simp only: abs_le_square_iff)
  then have "\<bar>d * d + r * r - R * R\<bar> \<le> 2 * d * r" using pos by simp
  then show "- 1 \<le> (d * d + r * r - R * R) / (2 * d * r)" "(d * d + r * r - R * R) / (2 * d * r) \<le> 1"
    using pos by (simp_all add: le_divide_eq divide_le_eq abs_le_iff)
qed

lemma one_minus_arg_sq:
  assumes "0 < r" "0 < d"
  shows "1 - ((d * d + r * r - R * R) / (2 * d * r))\<^sup>2 = heron R r d / (2 * d * r)\<^sup>2"
proof -
  have nz: "(2 * d * r)\<^sup>2 \<noteq> 0" using assms by simp
  show ?thesis
    unfolding heron_eq power_divide using nz by (simp add: diff_divide_distrib)
qed

lemma sqrt_one_minus_arg_sq:
  assumes "0 < r" "0 < d"
  shows "sqrt (1 - ((d * d + r * r - R * R) / (2 * d * r))\<^sup>2) = sqrt (heron R r d) / (2 * d * r)"
  using assms by (simp add: one_minus_arg_sq real_sqrt_divide real_sqrt_mult)

lemma arg_strict:
  assumes "0 < r" "0 < d" "0 < heron R r d"
  shows "- 1 < (d * d + r * r - R * R) / (2 * d * r)" "(d * d + r * r - R * R) / (2 * d * r) < 1"
proof -
  define u where "u = (d * d + r * r - R * R) / (2 * d * r)"
  have "0 < heron R r d / (2 * d * r)\<^sup>2" using assms by simp
  then have "u\<^sup>2 < 1" using one_minus_arg_sq [OF assms(1,2), of R] unfolding u_def by simp
  then have "\<bar>u\<bar> < 1" by (simp add: abs_square_less_1)
  then have "- 1 < u \<and> u < 1" by linarith
  then show "- 1 < (d * d + r * r - R * R) / (2 * d * r)" "(d * d + r * r - R * R) / (2 * d * r) < 1"
    unfolding u_def by simp_all
qed

lemma deriv_arg:
  assumes "0 < r" "0 < d"
  shows "((\<lambda>x. (x * x + r * r - R * R) / (2 * x * r)) has_real_derivative
           (d * d - r * r + R * R) / (2 * d * d * r)) (at d)"
  using assms
  by (auto intro!: derivative_eq_intros simp: field_simps power2_eq_square)

lemma deriv_acos_term:
  assumes "0 < r" "0 < d" "0 < heron R r d"
  shows "((\<lambda>x. arccos ((x * x + r * r - R * R) / (2 * x * r))) has_real_derivative
           - ((d * d - r * r + R * R) / (d * sqrt (heron R r d)))) (at d)"
proof -
  define s where "s = sqrt (heron R r d)"
  have s: "0 < s" using assms(3) by (simp add: s_def)
  have "((\<lambda>x. arccos ((x * x + r * r - R * R) / (2 * x * r))) has_real_derivative
          inverse (- sqrt (1 - ((d * d + r * r - R * R) / (2 * d * r))\<^sup>2))
            * ((d * d - r * r + R * R) / (2 * d * d * r))) (at d)"
    by (rule DERIV_chain2 [OF DERIV_arccos [OF arg_strict [OF assms]] deriv_arg [OF assms(1,2)]])
  moreover have "inverse (- sqrt (1 - ((d * d + r * r - R * R) / (2 * d * r))\<^sup>2))
            * ((d * d - r * r + R * R) / (2 * d * d * r))
          = - ((d * d - r * r + R * R) / (d * sqrt (heron R r d)))"
    unfolding sqrt_one_minus_arg_sq [OF assms(1,2)] s_def [symmetric]
    using s assms(1,2) by (simp add: field_simps)
  ultimately show ?thesis by simp
qed

lemma heron_poly:
  "heron R r x = - (x ^ 4) + 2 * (r * r + R * R) * (x * x) - (R * R - r * r) * (R * R - r * r)"
  unfolding heron_def by (simp add: algebra_simps power4_eq_xxxx)

lemma deriv_heron:
  "((\<lambda>x. heron R r x) has_real_derivative (- 4 * (d * d * d) + 4 * (r * r + R * R) * d)) (at d)"
  unfolding heron_poly
  by (auto intro!: derivative_eq_intros simp: algebra_simps power3_eq_cube)

lemma deriv_sqrt_heron:
  assumes "0 < heron R r d"
  shows "((\<lambda>x. sqrt (heron R r x)) has_real_derivative
           (- 4 * (d * d * d) + 4 * (r * r + R * R) * d) / (2 * sqrt (heron R r d))) (at d)"
proof -
  have "((\<lambda>x. sqrt (heron R r x)) has_real_derivative
          inverse (sqrt (heron R r d)) / 2 * (- 4 * (d * d * d) + 4 * (r * r + R * R) * d)) (at d)"
    by (rule DERIV_chain2 [OF DERIV_real_sqrt [OF assms] deriv_heron])
  then show ?thesis by (simp add: field_simps)
qed

lemma deriv_lens:
  assumes "0 < R" "0 < r" "0 < d" "0 < heron R r d"
  shows "((\<lambda>x. lens R r x) has_real_derivative - (sqrt (heron R r d) / d)) (at d)"
proof -
  define s where "s = sqrt (heron R r d)"
  have s: "0 < s" using assms(4) by (simp add: s_def)
  have ss: "s * s = heron R r d" using assms(4) by (simp add: s_def)
  have h': "0 < heron r R d" using assms(4) by (simp add: heron_sym)
  have t1: "((\<lambda>x. arccos ((x * x + r * r - R * R) / (2 * x * r))) has_real_derivative
           - ((d * d - r * r + R * R) / (d * s))) (at d)"
    unfolding s_def by (rule deriv_acos_term [OF assms(2,3,4)])
  have t2: "((\<lambda>x. arccos ((x * x + R * R - r * r) / (2 * x * R))) has_real_derivative
           - ((d * d - R * R + r * r) / (d * s))) (at d)"
    unfolding s_def heron_sym [of R r d] by (rule deriv_acos_term [OF assms(1,3) h'])
  have t3: "((\<lambda>x. sqrt (heron R r x)) has_real_derivative
           (- 4 * (d * d * d) + 4 * (r * r + R * R) * d) / (2 * s)) (at d)"
    unfolding s_def by (rule deriv_sqrt_heron [OF assms(4)])
  have "((\<lambda>x. lens R r x) has_real_derivative
          r * r * (- ((d * d - r * r + R * R) / (d * s)))
          + R * R * (- ((d * d - R * R + r * r) / (d * s)))
          - 1 / 2 * ((- 4 * (d * d * d) + 4 * (r * r + R * R) * d) / (2 * s))) (at d)"
    unfolding lens_def
    by (intro DERIV_diff DERIV_add DERIV_cmult t1 t2 t3)
  moreover have "r * r * (- ((d * d - r * r + R * R) / (d * s)))
          + R * R * (- ((d * d - R * R + r * r) / (d * s)))
          - 1 / 2 * ((- 4 * (d * d * d) + 4 * (r * r + R * R) * d) / (2 * s))
        = - (heron R r d) / (d * s)"
    using s assms(3) unfolding heron_poly
    by (simp add: field_simps power4_eq_xxxx)
  moreover have "- (heron R r d) / (d * s) = - (s / d)"
    using s assms(3) unfolding ss [symmetric] by (simp add: field_simps)
  ultimately show ?thesis unfolding s_def by simp
qed

lemma arg_continuous:
  assumes n1: "\<forall>x\<in>{a..b::real}. 2 * x * r \<noteq> 0"
  shows "continuous_on {a..b} (\<lambda>x. (x * x + r * r - R * R) / (2 * x * r))"
  by (intro continuous_on_divide continuous_on_add continuous_on_diff continuous_on_mult
        continuous_on_const continuous_on_id n1)

lemma sqrt_heron_continuous: "continuous_on {a..b} (\<lambda>x. sqrt (heron R r x))"
  unfolding heron_def
  by (intro continuous_on_real_sqrt continuous_on_add continuous_on_diff continuous_on_mult
        continuous_on_minus continuous_on_const continuous_on_id)

lemma lens_continuous:
  assumes "0 < R" "0 < r" "0 < a" "\<bar>R - r\<bar> \<le> a" "b \<le> R + r"
  shows "continuous_on {a..b} (\<lambda>x. lens R r x)"
proof -
  have h: "0 \<le> heron R r x" "0 \<le> heron r R x" "0 < x" if "x \<in> {a..b}" for x
  proof -
    have "\<bar>R - r\<bar> \<le> x" "x \<le> R + r" using that assms by auto
    then show "0 \<le> heron R r x" using heron_nonneg [of R r x] assms by simp
    then show "0 \<le> heron r R x" by (simp add: heron_sym)
    show "0 < x" using that assms by auto
  qed
  have b1: "\<forall>x\<in>{a..b}. - 1 \<le> (x * x + r * r - R * R) / (2 * x * r)
                     \<and> (x * x + r * r - R * R) / (2 * x * r) \<le> 1"
    using acos_arg_bounds [OF assms(2) h(3) h(1)] by blast
  have b2: "\<forall>x\<in>{a..b}. - 1 \<le> (x * x + R * R - r * r) / (2 * x * R)
                     \<and> (x * x + R * R - r * r) / (2 * x * R) \<le> 1"
    using acos_arg_bounds [OF assms(1) h(3) h(2)] by blast
  have n1: "\<forall>x\<in>{a..b}. 2 * x * r \<noteq> 0"
  proof
    fix x assume "x \<in> {a..b}"
    then have "0 < x" by (rule h(3))
    then show "2 * x * r \<noteq> 0" using assms(2) by simp
  qed
  have n2: "\<forall>x\<in>{a..b}. 2 * x * R \<noteq> 0"
  proof
    fix x assume "x \<in> {a..b}"
    then have "0 < x" by (rule h(3))
    then show "2 * x * R \<noteq> 0" using assms(1) by simp
  qed
  have c1: "continuous_on {a..b} (\<lambda>x. arccos ((x * x + r * r - R * R) / (2 * x * r)))"
    by (rule continuous_on_arccos [OF arg_continuous [OF n1] b1])
  have c2: "continuous_on {a..b} (\<lambda>x. arccos ((x * x + R * R - r * r) / (2 * x * R)))"
    by (rule continuous_on_arccos [OF arg_continuous [OF n2] b2])
  show ?thesis
    unfolding lens_def
    by (intro continuous_on_diff continuous_on_add continuous_on_mult continuous_on_const
          c1 c2 sqrt_heron_continuous)
qed

lemma lens_antimono:
  assumes "0 < R" "0 < r" "0 < a" "\<bar>R - r\<bar> \<le> a" "a \<le> b" "b \<le> R + r"
  shows "lens R r b \<le> lens R r a"
proof (cases "a = b")
  case True
  then show ?thesis by simp
next
  case False
  then have ab: "a < b" using assms(5) by simp
  have der: "\<exists>y. ((\<lambda>x. lens R r x) has_real_derivative y) (at x) \<and> y < 0"
    if "a < x" "x < b" for x
  proof -
    have x: "0 < x" "\<bar>R - r\<bar> < x" "x < R + r" using that assms by auto
    have hp: "0 < heron R r x" by (rule heron_pos [OF assms(1,2) x(2,3)])
    have "- (sqrt (heron R r x) / x) < 0" using hp x(1) by simp
    then show ?thesis using deriv_lens [OF assms(1,2) x(1) hp] by blast
  qed
  have "lens R r b < lens R r a"
    by (rule DERIV_neg_imp_decreasing_open [OF ab der lens_continuous [OF assms(1,2,3,4,6)]])
  then show ?thesis by simp
qed

lemma lens_touching:
  assumes "0 < R" "0 < r"
  shows "lens R r (R + r) = 0"
proof -
  have "0 < R + r" using assms by simp
  then have nz: "2 * (R + r) * r \<noteq> 0" "2 * (R + r) * R \<noteq> 0" using assms by simp_all
  have "(R + r) * (R + r) + r * r - R * R = 2 * (R + r) * r"
    by (simp add: algebra_simps)
  then have a1: "((R + r) * (R + r) + r * r - R * R) / (2 * (R + r) * r) = 1"
    using nz by simp
  have "(R + r) * (R + r) + R * R - r * r = 2 * (R + r) * R"
    by (simp add: algebra_simps)
  then have a2: "((R + r) * (R + r) + R * R - r * r) / (2 * (R + r) * R) = 1"
    using nz by simp
  have a3: "heron R r (R + r) = 0" by (simp add: heron_def)
  show ?thesis unfolding lens_def a1 a2 a3 by simp
qed

lemma lens_inner_sun_larger:
  assumes "0 < r" "r < R"
  shows "lens R r (R - r) = pi * (r * r)"
proof -
  have nz: "2 * (R - r) * r \<noteq> 0" "2 * (R - r) * R \<noteq> 0" using assms by simp_all
  have "(R - r) * (R - r) + r * r - R * R = - (2 * (R - r) * r)"
    by (simp add: algebra_simps)
  then have a1: "((R - r) * (R - r) + r * r - R * R) / (2 * (R - r) * r) = - 1"
    using nz by (simp only: divide_eq_minus_1_iff) simp
  have "(R - r) * (R - r) + R * R - r * r = 2 * (R - r) * R"
    by (simp add: algebra_simps)
  then have a2: "((R - r) * (R - r) + R * R - r * r) / (2 * (R - r) * R) = 1"
    using nz by simp
  have a3: "heron R r (R - r) = 0" by (simp add: heron_def)
  show ?thesis unfolding lens_def a1 a2 a3 by simp
qed

lemma lens_inner_moon_larger:
  assumes "0 < R" "R < r"
  shows "lens R r (r - R) = pi * (R * R)"
proof -
  have nz: "2 * (r - R) * r \<noteq> 0" "2 * (r - R) * R \<noteq> 0" using assms by simp_all
  have "(r - R) * (r - R) + r * r - R * R = 2 * (r - R) * r"
    by (simp add: algebra_simps)
  then have a1: "((r - R) * (r - R) + r * r - R * R) / (2 * (r - R) * r) = 1"
    using nz by simp
  have "(r - R) * (r - R) + R * R - r * r = - (2 * (r - R) * R)"
    by (simp add: algebra_simps)
  then have a2: "((r - R) * (r - R) + R * R - r * r) / (2 * (r - R) * R) = - 1"
    using nz by (simp only: divide_eq_minus_1_iff) simp
  have a3: "heron R r (r - R) = 0" by (simp add: heron_def)
  show ?thesis unfolding lens_def a1 a2 a3 by simp
qed

lemma lens_nonneg:
  assumes "0 < R" "0 < r" "0 < d" "\<bar>R - r\<bar> \<le> d" "d \<le> R + r"
  shows "0 \<le> lens R r d"
  using lens_antimono [OF assms(1,2,3,4,5)] lens_touching [OF assms(1,2)] by simp

lemma lens_le_min:
  assumes "0 < R" "0 < r" "0 < d" "\<bar>R - r\<bar> \<le> d" "d \<le> R + r"
  shows "lens R r d \<le> pi * (min R r * min R r)"
proof -
  consider "r < R" | "R < r" | "R = r" by linarith
  then show ?thesis
  proof cases
    case 1
    then have "lens R r d \<le> lens R r (R - r)"
      using assms by (intro lens_antimono) auto
    then show ?thesis using 1 assms(2) by (simp add: lens_inner_sun_larger min_def)
  next
    case 2
    then have "lens R r d \<le> lens R r (r - R)"
      using assms by (intro lens_antimono) auto
    then show ?thesis using 2 assms(1) by (simp add: lens_inner_moon_larger min_def)
  next
    case 3
    have hn: "0 \<le> heron R r d" by (rule heron_nonneg) (use assms in auto)
    have b: "(d * d + r * r - R * R) / (2 * d * r) \<le> 1" "- 1 \<le> (d * d + r * r - R * R) / (2 * d * r)"
      using acos_arg_bounds [OF assms(2,3) hn] by simp_all
    have "0 \<le> (d * d + r * r - R * R) / (2 * d * r)" using 3 assms by simp
    then have ac: "arccos ((d * d + r * r - R * R) / (2 * d * r)) \<le> pi / 2"
      using b by (intro arccos_le_pi2) auto
    have "lens R r d \<le> r * r * arccos ((d * d + r * r - R * R) / (2 * d * r)) 
         + r * r * arccos ((d * d + r * r - R * R) / (2 * d * r))"
      unfolding lens_def using 3 hn by simp
    also have "\<dots> \<le> r * r * (pi / 2) + r * r * (pi / 2)"
      using ac by (intro add_mono mult_left_mono) auto
    finally show ?thesis using 3 by simp
  qed
qed

section \<open>From the float model to the real formula\<close>

lemma fmul_one: "fmul (Fin 1) x = x"
  by (cases x) auto

lemma raw_area_Fin:
  assumes "0 < R" "0 < r" "0 < d" "\<bar>R - r\<bar> \<le> d" "d \<le> R + r"
  shows "raw_area (Fin R) (Fin r) (Fin d) = Fin (lens R r d)"
proof -
  have hn: "0 \<le> heron R r d" by (rule heron_nonneg) (use assms in auto)
  have hn': "0 \<le> heron r R d" using hn by (simp add: heron_sym)
  have b1: "- 1 \<le> (d * d + r * r - R * R) / (2 * d * r)" "(d * d + r * r - R * R) / (2 * d * r) \<le> 1"
    using acos_arg_bounds [OF assms(2,3) hn] by simp_all
  have b2: "- 1 \<le> (d * d + R * R - r * r) / (2 * d * R)" "(d * d + R * R - r * r) / (2 * d * R) \<le> 1"
    using acos_arg_bounds [OF assms(1,3) hn'] by simp_all
  have n: "d \<noteq> 0" "r \<noteq> 0" "R \<noteq> 0" using assms by simp_all
  have hn2: "0 \<le> (- d + r + R) * (d + r - R) * (d - r + R) * (d + r + R)"
    using hn by (simp add: heron_def)
  show ?thesis
    unfolding raw_area_def fsq_def fsub_def lens_def heron_def
    using b1 b2 n hn2 by simp
qed

lemma area_intersect_elem_Fin:
  "area_intersect_elem (Fin s) (Fin m) (Fin d) =
     (if d \<le> \<bar>s - m\<bar> then Fin (pi * (m * m))
      else if s + m < d then Fin 0
      else raw_area (Fin s) (Fin m) (Fin d))"
  by (auto simp: area_intersect_elem_def Let_def fsq_def fsub_def algebra_simps)

lemma area_intersect_Scalar:
  "area_intersect (Scalar s) (Scalar m) (Scalar e) = Inr [area_intersect_elem s m e]"
  by (simp add: area_intersect_def broadcast_def)

lemma area_intersect_Array:
  assumes "length r_moon = length r_sun" "length d = length r_sun"
  shows "area_intersect (Array r_sun) (Array r_moon) (Array d) =
           Inr (map (\<lambda>(s, m, e). area_intersect_elem s m e) (zip3 r_sun r_moon d))"
  using assms by (simp add: area_intersect_def broadcast_def)

lemma area_intersect_elem_real:
  assumes "0 \<le> s" "0 \<le> m" "0 \<le> d"
  shows "area_intersect_elem (Fin s) (Fin m) (Fin d) = Fin (area_real s m d)"
proof (cases "d \<le> \<bar>s - m\<bar> \<or> s + m < d")
  case True
  then show ?thesis by (auto simp: area_intersect_elem_Fin area_real_def)
next
  case False
  then have p: "\<bar>s - m\<bar> \<le> d" "d \<le> s + m" "\<bar>s - m\<bar> < d" by simp_all
  have "0 < d" "0 < s" "0 < m" using p assms by linarith+
  then have "raw_area (Fin s) (Fin m) (Fin d) = Fin (lens s m d)"
    using p by (intro raw_area_Fin)
  then show ?thesis using False by (simp add: area_intersect_elem_Fin area_real_def)
qed

lemma area_real_nonneg:
  assumes "0 \<le> s" "0 \<le> m" "0 \<le> d"
  shows "0 \<le> area_real s m d"
proof -
  have "0 \<le> lens s m d" if "\<not> d \<le> \<bar>s - m\<bar>" "\<not> s + m < d"
    using that assms by (intro lens_nonneg) linarith+
  then show ?thesis by (simp add: area_real_def)
qed




section \<open>The geometry kernel: areas\<close>








text \<open>
  The disjoint case and the touching boundary. Beyond the sum of the radii the area is
  \<open>0\<close>; at \<open>d = r_sun + r_moon\<close> with both radii positive the lens formula gives \<open>0\<close>.
\<close>

lemma area_intersect_disjoint:
  assumes "0 \<le> s" "0 \<le> m" "s + m < d"
  shows "area_intersect (Scalar (Fin s)) (Scalar (Fin m)) (Scalar (Fin d)) = Inr [Fin 0]"
proof -
  have "\<not> d \<le> \<bar>s - m\<bar>" using assms by linarith
  then show ?thesis using assms(3) by (simp add: area_intersect_Scalar area_intersect_elem_Fin)
qed

lemma area_intersect_touching:
  assumes "0 < s" "0 < m"
  shows "area_intersect (Scalar (Fin s)) (Scalar (Fin m)) (Scalar (Fin (s + m))) = Inr [Fin 0]"
proof -
  have "0 \<le> s" "0 \<le> m" "0 \<le> s + m" using assms by simp_all
  then have "area_intersect_elem (Fin s) (Fin m) (Fin (s + m)) = Fin (area_real s m (s + m))"
    by (rule area_intersect_elem_real)
  moreover have "\<not> s + m \<le> \<bar>s - m\<bar>" using assms by linarith
  ultimately show ?thesis using lens_touching [OF assms]
    by (simp add: area_intersect_Scalar area_real_def)
qed

lemma area_intersect_1_1_2:
  "area_intersect (Scalar (Fin 1)) (Scalar (Fin 1)) (Scalar (Fin 2)) = Inr [Fin 0]"
  using area_intersect_touching [of 1 1] by simp

text \<open>
  Claim C4 at \<open>r_sun = 0\<close>, \<open>r_moon = 1\<close>, \<open>d = r_sun + r_moon = 1\<close>: the two masks \<open>inset\<close>
  and \<open>r_sun <= r_moon\<close> hold, and the element gets the area of the moon disk, not \<open>0\<close>.
\<close>

theorem area_intersect_touching_zero_sun:
  "area_intersect (Scalar (Fin 0)) (Scalar (Fin 1)) (Scalar (Fin (0 + 1))) = Inr [Fin pi]"
  by (simp add: area_intersect_Scalar area_intersect_elem_Fin)

theorem area_intersect_touching_zero_sun_witness:
  "area_intersect (Scalar (Fin 0)) (Scalar (Fin 1)) (Scalar (Fin (0 + 1))) \<noteq> Inr [Fin 0]"
  unfolding area_intersect_touching_zero_sun by simp

section \<open>The orchestrator and the vectorisation layer\<close>

lemma obs_pipeline:
  "map (\<lambda>(ob, s). horizon_cutoff mn (sun_alt s) ob)
     (zip (map (\<lambda>(a, s). obscuration_elem a (r_sun_deg s))
             (zip (map (\<lambda>(s, m, e). area_intersect_elem s m e)
                     (zip3 (map r_sun_deg smp) (map r_moon_deg smp) (map sep smp))) smp)) smp)
   = map (\<lambda>s. horizon_cutoff mn (sun_alt s) (geometric_obscuration s)) smp"
  by (induction smp) (simp_all add: geometric_obscuration_def)

lemma calculate_obscuration_batch:
  assumes "observation_batch date_time lat lon height = Inr b"
  shows "calculate_obscuration eph date_time lat lon height rd mn =
           Inr (let smp = map (\<lambda>(t, lo, la, h). eph t lo la h) b;
                    res = squeeze (map (\<lambda>s. horizon_cutoff mn (sun_alt s) (geometric_obscuration s)) smp)
                in if rd then ObscDict res (map sep smp) (map sun_alt smp) else Obsc res)"
proof -
  define smp where "smp = map (\<lambda>(t, lo, la, h). eph t lo la h) b"
  have ai: "area_intersect (Array (map r_sun_deg smp)) (Array (map r_moon_deg smp))
              (Array (map sep smp))
            = Inr (map (\<lambda>(s, m, e). area_intersect_elem s m e)
                     (zip3 (map r_sun_deg smp) (map r_moon_deg smp) (map sep smp)))"
    by (rule area_intersect_Array) simp_all
  show ?thesis
    by (simp only: calculate_obscuration_def assms sum.case Let_def smp_def [symmetric] ai
          obs_pipeline)
qed


lemma array_squeeze: "array (squeeze obs) = obs"
proof (cases obs)
  case Nil
  then show ?thesis by (simp add: squeeze_def)
next
  case (Cons x xs)
  then show ?thesis by (cases xs) (simp_all add: squeeze_def)
qed

lemma squeeze_cases: "squeeze obs = (if length obs = 1 then Scalar (obs ! 0) else Array obs)"
proof (cases obs)
  case Nil
  then show ?thesis by (simp add: squeeze_def)
next
  case (Cons x xs)
  then show ?thesis by (cases xs) (simp_all add: squeeze_def)
qed

text \<open>
  Claim C6. Every element of the batch whose solar altitude is strictly below
  \<open>min_solar_elev_deg\<close> gets the obscuration \<open>0\<close>, whatever the geometry gives; every
  other element keeps the geometric value.
\<close>

theorem horizon_cutoff_applied:
  assumes "observation_batch date_time lat lon height = Inr b"
    and "i < length b" "b ! i = (t, lo, la, h)"
  shows "\<exists>res. calculate_obscuration eph date_time lat lon height rd mn = Inr res
           \<and> array (obsc res) ! i =
               (if flt (sun_alt (eph t lo la h)) mn then Fin 0
                else geometric_obscuration (eph t lo la h))"
  using assms(2,3)
  by (simp add: calculate_obscuration_batch [OF assms(1)] Let_def array_squeeze horizon_cutoff_def)

text \<open>
  A total eclipse: the Sun at 150 000 000 km, the Moon at 360 000 km, the two centres
  coincident. The moon disk is the larger one.
\<close>

lemma total_eclipse_radii:
  "r_sun_deg \<lparr>sun_alt = a, sun_distance = Fin 150000000, moon_distance = Fin 360000, sep = e\<rparr>
     = Fin (695700 / 150000000 * (10800 / pi) * (1 / 60))"
  "r_moon_deg \<lparr>sun_alt = a, sun_distance = Fin 150000000, moon_distance = Fin 360000, sep = e\<rparr>
     = Fin (17371 / 10 / 360000 * (10800 / pi) * (1 / 60))"
  by (simp_all add: r_sun_deg_def r_moon_deg_def to_degree_def apparent_size_def R_sun_def R_moon_def)

lemma batch_scalar:
  "observation_batch (Scalar t) (Scalar la) (Scalar lo) (Scalar h) = Inr [(t, lo, la, h)]"
  by (simp add: observation_batch_def conform_def)

theorem horizon_cutoff_applied_witness:
  "observation_batch (Scalar (0::nat)) (Scalar (Fin 31)) (Scalar (Fin (- 100))) (Scalar (Fin 0))
     = Inr [(0, Fin (- 100), Fin 31, Fin 0)]
   \<and> (0::nat) < length [(0::nat, Fin (- 100), Fin 31, Fin 0)]
   \<and> [(0::nat, Fin (- 100), Fin 31, Fin 0)] ! 0 = (0, Fin (- 100), Fin 31, Fin 0)
   \<and> (\<exists>res. calculate_obscuration
                (fixed_sample \<lparr>sun_alt = Fin (- 5), sun_distance = Fin 150000000,
                               moon_distance = Fin 360000, sep = Fin 0\<rparr>)
                (Scalar 0) (Scalar (Fin 31)) (Scalar (Fin (- 100))) (Scalar (Fin 0)) False (Fin 0)
              = Inr res
            \<and> array (obsc res) ! 0 = Fin 0)"
proof -
  have b: "observation_batch (Scalar (0::nat)) (Scalar (Fin 31)) (Scalar (Fin (- 100)))
             (Scalar (Fin 0)) = Inr [(0, Fin (- 100), Fin 31, Fin 0)]"
    by (rule batch_scalar)
  have i: "(0::nat) < length [(0::nat, Fin (- 100), Fin 31, Fin 0)]" by simp
  have e: "[(0::nat, Fin (- 100), Fin 31, Fin 0)] ! 0 = (0, Fin (- 100), Fin 31, Fin 0)" by simp
  show ?thesis
    using horizon_cutoff_applied [OF b i e,
        of "fixed_sample \<lparr>sun_alt = Fin (- 5), sun_distance = Fin 150000000,
                           moon_distance = Fin 360000, sep = Fin 0\<rparr>" False "Fin 0"] b
    by (simp add: fixed_sample_def)
qed

text \<open>
  Claim C1 at this sample: the area is that of the moon disk, and the obscuration, its
  quotient by the solar disk, is \<open>(r_moon/r_sun)\<^sup>2 = 7543791025/6969578256 > 1\<close>.
\<close>

theorem total_eclipse_obscuration:
  "calculate_obscuration
     (fixed_sample \<lparr>sun_alt = Fin 45, sun_distance = Fin 150000000,
                    moon_distance = Fin 360000, sep = Fin 0\<rparr>)
     (Scalar 0) (Scalar (Fin 31)) (Scalar (Fin (- 100))) (Scalar (Fin 0)) False (Fin 0)
   = Inr (Obsc (Scalar (Fin (7543791025 / 6969578256))))"
  apply (simp add: calculate_obscuration_batch [OF batch_scalar] Let_def squeeze_def
      horizon_cutoff_def geometric_obscuration_def fixed_sample_def total_eclipse_radii
      area_intersect_elem_Fin obscuration_elem_def fsq_def)
  apply (simp add: field_simps)?
  done

theorem total_eclipse_obscuration_witness:
  "\<exists>x. calculate_obscuration
          (fixed_sample \<lparr>sun_alt = Fin 45, sun_distance = Fin 150000000,
                         moon_distance = Fin 360000, sep = Fin 0\<rparr>)
          (Scalar 0) (Scalar (Fin 31)) (Scalar (Fin (- 100))) (Scalar (Fin 0)) False (Fin 0)
        = Inr (Obsc (Scalar (Fin x))) \<and> 1 < x"
  unfolding total_eclipse_obscuration
  by (rule exI [of _ "7543791025 / 6969578256"]) simp

text \<open>
  Outside that configuration (the Moon the larger disk and the Sun inside it) the
  quotient lies in \<open>[0,1]\<close>.
\<close>

lemma obscuration_range:
  assumes "0 < s" "0 \<le> m" "0 \<le> d" "\<not> (s < m \<and> d \<le> m - s)"
  shows "\<exists>x. obscuration_elem (area_intersect_elem (Fin s) (Fin m) (Fin d)) (Fin s) = Fin x
           \<and> 0 \<le> x \<and> x \<le> 1"
proof -
  have s0: "0 \<le> s" using assms(1) by simp
  have ss: "0 < pi * (s * s)" using assms(1) by simp
  have le: "area_real s m d \<le> pi * (s * s)"
  proof (cases "d \<le> \<bar>s - m\<bar>")
    case True
    then have "m \<le> s" using assms(4) by linarith
    then have "m * m \<le> s * s" using assms(2) by (intro mult_mono) auto
    then show ?thesis using True by (simp add: area_real_def)
  next
    case False
    show ?thesis
    proof (cases "s + m < d")
      case True
      then show ?thesis using False ss by (simp add: area_real_def)
    next
      case nd: False
      have "lens s m d \<le> pi * (min s m * min s m)"
        using False nd assms by (intro lens_le_min) linarith+
      also have "\<dots> \<le> pi * (s * s)"
        using assms by (intro mult_left_mono mult_mono) (auto simp: min_def)
      finally show ?thesis using False nd by (simp add: area_real_def)
    qed
  qed
  have "0 \<le> area_real s m d / (pi * (s * s))"
    using area_real_nonneg [OF s0 assms(2,3)] ss by simp
  moreover have "area_real s m d / (pi * (s * s)) \<le> 1"
    using le ss by (simp add: divide_le_eq)
  ultimately show ?thesis
    using assms(1)
    by (simp add: obscuration_elem_def fsq_def area_intersect_elem_real [OF s0 assms(2,3)])
qed

text \<open>
  Claim C7, as amended. \<open>apparent_size\<close> checks nothing and raises nothing: for a
  positive radius, the distance \<open>0\<close> gives \<open>+inf\<close> and a negative distance \<open>d\<close> gives the
  negative angle \<open>(R/d) \<sqdot> 10800/\<pi>\<close> arc minutes.
\<close>

theorem apparent_size_unchecked:
  assumes "0 < R" "d \<le> 0"
  shows "apparent_size (Fin R) (Fin d) = (if d = 0 then PInf else Fin (R / d * (10800 / pi)))
       \<and> (if d = 0 then True else R / d * (10800 / pi) < 0)"
  using assms by (auto simp: apparent_size_def divide_neg_pos mult_neg_pos divide_pos_neg)

theorem apparent_size_unchecked_witness:
  "(0::real) < 1 \<and> (- 1::real) \<le> 0
   \<and> apparent_size (Fin 1) (Fin (- 1)) = Fin (1 / (- 1) * (10800 / pi))
   \<and> 1 / (- 1) * (10800 / pi) < (0::real)"
  using apparent_size_unchecked [of 1 "- 1"] by simp

text \<open>
  Claim C7 as stated fails: the solar radius at distance \<open>0\<close> and at a negative distance
  gives a value, infinite or negative, and no error.
\<close>

theorem apparent_size_no_domain_error:
  "apparent_size R_sun (Fin 0) = PInf
   \<and> apparent_size R_sun (Fin (- 695700)) = Fin (- (10800 / pi))"
  by (simp add: apparent_size_def R_sun_def)

lemma conform_char:
  "conform a t =
     (if a = [] \<and> t \<noteq> [] then Inl IndexError
      else Inr (map (conformed a (length t)) [0..<length t]))"
proof (cases a)
  case Nil
  then show ?thesis by (cases t) (simp_all add: conform_def)
next
  case (Cons x xs)
  show ?thesis
  proof (cases "length a = length t")
    case True
    have "map (conformed a (length t)) [0..<length t] = map ((!) a) [0..<length a]"
      using True by (simp add: conformed_def)
    then have "map (conformed a (length t)) [0..<length t] = a"
      by (simp only: map_nth)
    moreover have "conform a t = Inr a" using True by (simp add: conform_def)
    ultimately show ?thesis using Cons by simp
  next
    case False
    have "conformed a (length t) = (\<lambda>i. x)"
      using False Cons by (intro ext) (simp add: conformed_def)
    then have "map (conformed a (length t)) [0..<length t] = replicate (length t) x"
      by (simp add: map_replicate_const)
    then show ?thesis using False Cons by (simp add: conform_def fmul_one)
  qed
qed

lemma zip_map_upt:
  "zip (map f [0..<n]) (map g [0..<n]) = map (\<lambda>i. (f i, g i)) [0..<n]"
  by (rule nth_equalityI) simp_all

lemma observation_batch_char:
  "observation_batch date_time lat lon height =
     (let n = length (array date_time) in
      if (array lat = [] \<or> array lon = [] \<or> array height = []) \<and> 0 < n then Inl IndexError
      else Inr (map (\<lambda>i. (array date_time ! i, conformed (array lon) n i,
                          conformed (array lat) n i, conformed (array height) n i))
                  [0..<n]))"
proof -
  have dt: "array date_time = map ((!) (array date_time)) [0..<length (array date_time)]"
    by (simp add: map_nth)
  have z: "zip (array date_time)
             (zip (map f [0..<length (array date_time)])
                (zip (map g [0..<length (array date_time)]) (map k [0..<length (array date_time)])))
           = map (\<lambda>i. (array date_time ! i, f i, g i, k i)) [0..<length (array date_time)]"
    for f g k :: "nat \<Rightarrow> npfloat"
    by (subst dt) (simp only: zip_map_upt)
  show ?thesis
    by (auto simp: observation_batch_def conform_char Let_def z)
qed

lemma disjoint_sample:
  "geometric_obscuration \<lparr>sun_alt = a, sun_distance = Fin 150000000,
                          moon_distance = Fin 360000, sep = Fin 10\<rparr> = Fin 0"
proof -
  have "2 \<le> pi" by (rule pi_ge_two)
  then have p: "695700 * 10800 / (150000000 * 60) / pi + 17371 * 10800 / (10 * 360000 * 60) / pi < 10"
    by (simp add: field_simps)
  have q: "\<not> 10 \<le> \<bar>695700 * 10800 / (150000000 * 60) / pi - 17371 * 10800 / (10 * 360000 * 60) / pi\<bar>"
    using p by (simp add: abs_le_iff field_simps)
  show ?thesis
    using p q
    by (simp add: geometric_obscuration_def total_eclipse_radii area_intersect_elem_Fin
        obscuration_elem_def fsq_def)
qed


lemma observation_batch_nonempty:
  assumes "array lat \<noteq> []" "array lon \<noteq> []" "array height \<noteq> []"
  shows "observation_batch date_time lat lon height =
           Inr (zip (array date_time)
                  (zip3 (map (conformed (array lon) (length (array date_time)))
                           [0..<length (array date_time)])
                        (map (conformed (array lat) (length (array date_time)))
                           [0..<length (array date_time)])
                        (map (conformed (array height) (length (array date_time)))
                           [0..<length (array date_time)])))"
  using assms by (simp add: observation_batch_def conform_char Let_def)

lemma observation_batch_conformed:
  "observation_batch date_time (Array (map (conformed la n) [0..<n]))
       (Array (map (conformed lo n) [0..<n])) (Array (map (conformed h n) [0..<n]))
     = Inr (zip (array date_time)
              (zip3 (map (conformed lo n) [0..<n]) (map (conformed la n) [0..<n])
                 (map (conformed h n) [0..<n])))"
  if "n = length (array date_time)"
  using that by (simp add: observation_batch_def conform_def Let_def)

text \<open>
  Claim C8, as amended. For non-empty latitude, longitude and height, the three fields
  are conformed to the length \<open>N\<close> of \<open>date_time\<close>, which is never changed itself: a field
  of length \<open>N\<close> is kept and a field of any other length is replaced by its first element
  repeated \<open>N\<close> times. A mismatch of lengths is not rejected: the call does what it does
  for the conformed fields.
\<close>

theorem conform_step:
  assumes "array lat \<noteq> []" "array lon \<noteq> []" "array height \<noteq> []"
  shows "observation_batch date_time lat lon height =
           Inr (map (\<lambda>i. (array date_time ! i,
                           conformed (array lon) (length (array date_time)) i,
                           conformed (array lat) (length (array date_time)) i,
                           conformed (array height) (length (array date_time)) i))
                  [0..<length (array date_time)])
       \<and> calculate_obscuration eph date_time lat lon height rd mn =
           calculate_obscuration eph date_time
             (Array (map (conformed (array lat) (length (array date_time)))
                       [0..<length (array date_time)]))
             (Array (map (conformed (array lon) (length (array date_time)))
                       [0..<length (array date_time)]))
             (Array (map (conformed (array height) (length (array date_time)))
                       [0..<length (array date_time)]))
             rd mn"
proof
  show "observation_batch date_time lat lon height =
           Inr (map (\<lambda>i. (array date_time ! i,
                           conformed (array lon) (length (array date_time)) i,
                           conformed (array lat) (length (array date_time)) i,
                           conformed (array height) (length (array date_time)) i))
                  [0..<length (array date_time)])"
    using assms by (simp add: observation_batch_char Let_def)
next
  have "observation_batch date_time lat lon height =
          observation_batch date_time
             (Array (map (conformed (array lat) (length (array date_time)))
                       [0..<length (array date_time)]))
             (Array (map (conformed (array lon) (length (array date_time)))
                       [0..<length (array date_time)]))
             (Array (map (conformed (array height) (length (array date_time)))
                       [0..<length (array date_time)]))"
    by (simp only: observation_batch_nonempty [OF assms] observation_batch_conformed [OF refl])
  then show "calculate_obscuration eph date_time lat lon height rd mn =
           calculate_obscuration eph date_time
             (Array (map (conformed (array lat) (length (array date_time)))
                       [0..<length (array date_time)]))
             (Array (map (conformed (array lon) (length (array date_time)))
                       [0..<length (array date_time)]))
             (Array (map (conformed (array height) (length (array date_time)))
                       [0..<length (array date_time)]))
             rd mn"
    by (simp only: calculate_obscuration_def)
qed

theorem conform_step_witness:
  "array (Array [Fin 10, Fin 20, Fin 30]) \<noteq> [] \<and> array (Scalar (Fin 5)) \<noteq> []
   \<and> array (Scalar (Fin 0)) \<noteq> []
   \<and> observation_batch (Array [10::nat, 20]) (Array [Fin 10, Fin 20, Fin 30]) (Scalar (Fin 5))
       (Scalar (Fin 0))
     = Inr [(10, Fin 5, Fin 10, Fin 0), (20, Fin 5, Fin 10, Fin 0)]
   \<and> calculate_obscuration
       (fixed_sample \<lparr>sun_alt = Fin 45, sun_distance = Fin 150000000,
                      moon_distance = Fin 360000, sep = Fin 10\<rparr>)
       (Array [10, 20]) (Array [Fin 10, Fin 20, Fin 30]) (Scalar (Fin 5)) (Scalar (Fin 0))
       False (Fin 0)
     = calculate_obscuration
         (fixed_sample \<lparr>sun_alt = Fin 45, sun_distance = Fin 150000000,
                        moon_distance = Fin 360000, sep = Fin 10\<rparr>)
         (Array [10, 20]) (Array [Fin 10, Fin 10]) (Array [Fin 5, Fin 5]) (Array [Fin 0, Fin 0])
         False (Fin 0)"
  using conform_step [of "Array [Fin 10, Fin 20, Fin 30]" "Scalar (Fin 5)" "Scalar (Fin 0)"
      "Array [10::nat, 20]"
      "fixed_sample \<lparr>sun_alt = Fin 45, sun_distance = Fin 150000000,
                     moon_distance = Fin 360000, sep = Fin 10\<rparr>" False "Fin 0"]
  by (simp add: conformed_def upt_rec)

text \<open>
  Claim C8 as stated fails: two times with three latitudes are not rejected; the
  latitudes \<open>20\<close> and \<open>30\<close> are dropped and the first one is used for both times.
\<close>

theorem mismatched_lengths_not_rejected:
  "observation_batch (Array [10::nat, 20]) (Array [Fin 10, Fin 20, Fin 30]) (Scalar (Fin 5))
     (Scalar (Fin 0))
   = Inr [(10, Fin 5, Fin 10, Fin 0), (20, Fin 5, Fin 10, Fin 0)]
   \<and> calculate_obscuration
       (fixed_sample \<lparr>sun_alt = Fin 45, sun_distance = Fin 150000000,
                      moon_distance = Fin 360000, sep = Fin 10\<rparr>)
       (Array [10, 20]) (Array [Fin 10, Fin 20, Fin 30]) (Scalar (Fin 5)) (Scalar (Fin 0))
       False (Fin 0)
     = Inr (Obsc (Array [Fin 0, Fin 0]))"
proof -
  have b: "observation_batch (Array [10::nat, 20]) (Array [Fin 10, Fin 20, Fin 30]) (Scalar (Fin 5))
             (Scalar (Fin 0))
           = Inr [(10, Fin 5, Fin 10, Fin 0), (20, Fin 5, Fin 10, Fin 0)]"
    by (simp add: observation_batch_def conform_def)
  show ?thesis
    by (simp add: calculate_obscuration_batch [OF b] b Let_def squeeze_def horizon_cutoff_def
        fixed_sample_def disjoint_sample)
qed

text \<open>
  Claim C9, as amended. For non-empty latitude, longitude and height and \<open>N\<close> times the
  function computes \<open>N\<close> values, the \<open>i\<close>-th from the \<open>i\<close>-th time, and returns them as a
  sequence when \<open>N \<noteq> 1\<close> and as a scalar when \<open>N = 1\<close>, whether the one time was given as
  a scalar or as a sequence of length one.
\<close>

theorem result_shape:
  assumes "array lat \<noteq> []" "array lon \<noteq> []" "array height \<noteq> []"
  shows "\<exists>obs. length obs = length (array date_time)
          \<and> calculate_obscuration eph date_time lat lon height False mn =
              Inr (Obsc (if length (array date_time) = 1 then Scalar (obs ! 0) else Array obs))
          \<and> (\<forall>i<length (array date_time).
                obs ! i =
                  (let n = length (array date_time);
                       s = eph (array date_time ! i) (conformed (array lon) n i)
                             (conformed (array lat) n i) (conformed (array height) n i)
                   in horizon_cutoff mn (sun_alt s) (geometric_obscuration s)))"
proof -
  define n where "n = length (array date_time)"
  define b where "b = map (\<lambda>i. (array date_time ! i, conformed (array lon) n i,
                          conformed (array lat) n i, conformed (array height) n i)) [0..<n]"
  define obs where "obs = map (\<lambda>s. horizon_cutoff mn (sun_alt s) (geometric_obscuration s))
                            (map (\<lambda>(t, lo, la, h). eph t lo la h) b)"
  have bat: "observation_batch date_time lat lon height = Inr b"
    using assms by (simp add: observation_batch_char b_def n_def Let_def)
  have len: "length obs = n" by (simp add: obs_def b_def)
  have calc: "calculate_obscuration eph date_time lat lon height False mn =
                Inr (Obsc (if n = 1 then Scalar (obs ! 0) else Array obs))"
  proof -
    have "calculate_obscuration eph date_time lat lon height False mn = Inr (Obsc (squeeze obs))"
      by (simp only: calculate_obscuration_batch [OF bat] Let_def obs_def if_False)
    then show ?thesis using len by (simp add: squeeze_cases)
  qed
  have nth: "obs ! i = (let s = eph (array date_time ! i) (conformed (array lon) n i)
                               (conformed (array lat) n i) (conformed (array height) n i)
                        in horizon_cutoff mn (sun_alt s) (geometric_obscuration s))"
    if "i < n" for i
    using that by (simp add: obs_def b_def Let_def)
  show ?thesis
    using len calc nth unfolding n_def Let_def by blast
qed

theorem result_shape_witness:
  "array (Scalar (Fin 31)) \<noteq> [] \<and> array (Scalar (Fin (- 100))) \<noteq> [] \<and> array (Scalar (Fin 0)) \<noteq> []
   \<and> (\<exists>obs. length obs = 2
         \<and> calculate_obscuration
              (fixed_sample \<lparr>sun_alt = Fin 45, sun_distance = Fin 150000000,
                             moon_distance = Fin 360000, sep = Fin 10\<rparr>)
              (Array [0, 1]) (Scalar (Fin 31)) (Scalar (Fin (- 100))) (Scalar (Fin 0)) False (Fin 0)
            = Inr (Obsc (Array obs)))"
  using result_shape [of "Scalar (Fin 31)" "Scalar (Fin (- 100))" "Scalar (Fin 0)" "Array [0, 1]"
      "fixed_sample \<lparr>sun_alt = Fin 45, sun_distance = Fin 150000000,
                     moon_distance = Fin 360000, sep = Fin 10\<rparr>" "Fin 0"]
  by auto

text \<open>
  Claim C9 as stated fails at \<open>N = 1\<close>: sequences of length one give a scalar, not a
  sequence of length one.
\<close>

theorem single_element_sequence_gives_scalar:
  "calculate_obscuration
     (fixed_sample \<lparr>sun_alt = Fin 45, sun_distance = Fin 150000000,
                    moon_distance = Fin 360000, sep = Fin 10\<rparr>)
     (Array [0]) (Array [Fin 31]) (Array [Fin (- 100)]) (Array [Fin 0]) False (Fin 0)
   = Inr (Obsc (Scalar (Fin 0)))"
proof -
  have b: "observation_batch (Array [0::nat]) (Array [Fin 31]) (Array [Fin (- 100)]) (Array [Fin 0])
             = Inr [(0, Fin (- 100), Fin 31, Fin 0)]"
    by (simp add: observation_batch_def conform_def)
  show ?thesis
    by (simp add: calculate_obscuration_batch [OF b] Let_def squeeze_def horizon_cutoff_def
        fixed_sample_def disjoint_sample)
qed

section \<open>The arguments of arccos\<close>

lemma log2n_numeral [simp]:
  "log2n (numeral k) = (if numeral k < (2::nat) then 0 else Suc (log2n (numeral k div 2)))"
  "log2n 0 = 0" "log2n 1 = 0" "log2n (Suc 0) = 0"
  by (simp_all add: log2n.simps [of "numeral k"] log2n.simps [of 0] log2n.simps [of "Suc 0"])

text \<open>
  The literals \<open>0.1\<close>, \<open>0.3\<close> and \<open>0.4\<close> as doubles, their rounded sum \<open>0.1 + 0.3\<close>, which
  is the double \<open>0.4\<close>, and their rounded difference.
\<close>

lemma binade_vals:
  "binade (1 / 10) = - 4" "binade (3 / 10) = - 2" "binade (4 / 10) = - 2"
  by (simp_all add: binade_def)

lemma rne_inputs:
  "rne (1 / 10) = 3602879701896397 / 2 ^ 55"
  "rne (3 / 10) = 5404319552844595 / 2 ^ 54"
  "rne (4 / 10) = 3602879701896397 / 2 ^ 53"
  by (simp_all add: rne_def binade_def pow2_def round_half_even_def Let_def)

lemma fadd_NaN_right: "fadd a NaN = NaN"
  by (cases a) simp_all

lemma fmul_NaN_right: "fmul a NaN = NaN"
  by (cases a) simp_all

lemma round_b64_simps:
  "round_b64 (Fin x) = Fin (rne x)" "round_b64 NaN = NaN"
  by (simp_all add: round_b64_def)

lemma sums:
  "add64 (Fin (3602879701896397 / 2 ^ 55)) (Fin (5404319552844595 / 2 ^ 54))
     = Fin (3602879701896397 / 2 ^ 53)"
  "sub64 (Fin (3602879701896397 / 2 ^ 55)) (Fin (5404319552844595 / 2 ^ 54))
     = Fin (- (7205759403792793 / 2 ^ 55))"
  by (simp_all add: add64_def sub64_def fsub_def round_b64_simps rne_def binade_def pow2_def
      round_half_even_def Let_def)


lemma nan_propagates:
  "mul64 a NaN = NaN" "add64 a NaN = NaN" "sub64 NaN b = NaN"
  by (simp_all add: mul64_def add64_def sub64_def fsub_def fmul_NaN_right fadd_NaN_right
      round_b64_simps)

text \<open>
  The second \<open>arccos\<close> argument of \<open>raw_area(0.1, 0.3, 0.4)\<close>,
  \<open>(d**2 + R**2 - r**2)/(2*d*R)\<close>, is \<open>1 + 2\<^sup>-\<^sup>5\<^sup>1\<close>.
\<close>

lemma acos_argument_above_one:
  "div64
     (sub64
        (add64 (sq64 (Fin (3602879701896397 / 2 ^ 53))) (sq64 (Fin (3602879701896397 / 2 ^ 55))))
        (sq64 (Fin (5404319552844595 / 2 ^ 54))))
     (mul64 (mul64 (Fin 2) (Fin (3602879701896397 / 2 ^ 53))) (Fin (3602879701896397 / 2 ^ 55)))
   = Fin (2251799813685249 / 2 ^ 51)"
  by (simp add: div64_def add64_def sub64_def mul64_def sq64_def fsub_def round_b64_simps rne_def
      binade_def pow2_def round_half_even_def Let_def)

lemma raw_area_b64_nan:
  "raw_area_b64 (Fin (3602879701896397 / 2 ^ 55)) (Fin (5404319552844595 / 2 ^ 54))
     (Fin (3602879701896397 / 2 ^ 53)) = NaN"
  unfolding raw_area_b64_def acos_argument_above_one
  by (simp add: arccos64_def round_b64_simps nan_propagates)

text \<open>
  Claim C10 as stated fails: for \<open>r_sun = 0.1\<close>, \<open>r_moon = 0.3\<close>, \<open>d = 0.4\<close> the element is in
  the partial mask (\<open>d <= r_sun + r_moon\<close> holds of the rounded sum, \<open>inset\<close> does not
  hold), an \<open>arccos\<close> argument exceeds \<open>1\<close>, nothing clamps it, and the area is \<open>NaN\<close>.
\<close>

theorem rounding_gives_nan:
  "area_intersect_elem_b64 (Fin (rne (1 / 10))) (Fin (rne (3 / 10))) (Fin (rne (4 / 10))) = NaN"
  unfolding rne_inputs area_intersect_elem_b64_def Let_def sums
  using raw_area_b64_nan by simp

text \<open>\<open>raw_area\<close> has no clamp: an argument outside \<open>[-1,1]\<close> makes the area \<open>NaN\<close>.\<close>

lemma raw_area_first_argument:
  assumes "\<not> (- 1 \<le> (d * d + r * r - R * R) / (2 * d * r) \<and> (d * d + r * r - R * R) / (2 * d * r) \<le> 1)"
  shows "raw_area (Fin R) (Fin r) (Fin d) = NaN"
proof -
  have nz: "2 * d * r \<noteq> 0" using assms by auto
  have "farccos (fdiv (Fin (d * d + r * r - R * R)) (Fin (2 * d * r))) = NaN"
    using assms nz by auto
  then show ?thesis
    unfolding raw_area_def fsq_def fsub_def by (simp add: fadd_NaN_right)
qed

lemma raw_area_second_argument:
  assumes "\<not> (- 1 \<le> (d * d + R * R - r * r) / (2 * d * R) \<and> (d * d + R * R - r * r) / (2 * d * R) \<le> 1)"
  shows "raw_area (Fin R) (Fin r) (Fin d) = NaN"
proof -
  have nz: "2 * d * R \<noteq> 0" using assms by auto
  have "farccos (fdiv (Fin (d * d + R * R - r * r)) (Fin (2 * d * R))) = NaN"
    using assms nz by auto
  then show ?thesis
    unfolding raw_area_def fsq_def fsub_def by (simp add: fadd_NaN_right fmul_NaN_right)
qed

text \<open>
  Claim C10, as amended. No clamp is applied: \<open>raw_area\<close> returns \<open>NaN\<close> whenever one of
  its two \<open>arccos\<close> arguments lies outside \<open>[-1,1]\<close>. In exact arithmetic the masks keep
  both arguments of a partial-overlap element within \<open>[-1,1]\<close>, and the area of that element
  is the finite value of the lens formula.
\<close>

theorem lens_arguments:
  "(\<not> (- 1 \<le> (d * d + r * r - R * R) / (2 * d * r) \<and> (d * d + r * r - R * R) / (2 * d * r) \<le> 1
        \<and> - 1 \<le> (d * d + R * R - r * r) / (2 * d * R) \<and> (d * d + R * R - r * r) / (2 * d * R) \<le> 1)
      \<longrightarrow> raw_area (Fin R) (Fin r) (Fin d) = NaN)
   \<and> (0 \<le> R \<and> 0 \<le> r \<and> 0 \<le> d \<and> \<not> d \<le> \<bar>R - r\<bar> \<and> \<not> R + r < d
      \<longrightarrow> - 1 \<le> (d * d + r * r - R * R) / (2 * d * r) \<and> (d * d + r * r - R * R) / (2 * d * r) \<le> 1
        \<and> - 1 \<le> (d * d + R * R - r * r) / (2 * d * R) \<and> (d * d + R * R - r * r) / (2 * d * R) \<le> 1
        \<and> area_intersect (Scalar (Fin R)) (Scalar (Fin r)) (Scalar (Fin d)) = Inr [Fin (lens R r d)])"
proof (intro conjI impI)
  assume "\<not> (- 1 \<le> (d * d + r * r - R * R) / (2 * d * r) \<and> (d * d + r * r - R * R) / (2 * d * r) \<le> 1
        \<and> - 1 \<le> (d * d + R * R - r * r) / (2 * d * R) \<and> (d * d + R * R - r * r) / (2 * d * R) \<le> 1)"
  then show "raw_area (Fin R) (Fin r) (Fin d) = NaN"
    using raw_area_first_argument [of d r R] raw_area_second_argument [of d R r] by blast
next
  assume a: "0 \<le> R \<and> 0 \<le> r \<and> 0 \<le> d \<and> \<not> d \<le> \<bar>R - r\<bar> \<and> \<not> R + r < d"
  then have pos: "0 < R" "0 < r" "0 < d" and rng: "\<bar>R - r\<bar> \<le> d" "d \<le> R + r" by linarith+
  have hn: "0 \<le> heron R r d" by (rule heron_nonneg) (use pos rng in auto)
  then have hn': "0 \<le> heron r R d" by (simp add: heron_sym)
  show "- 1 \<le> (d * d + r * r - R * R) / (2 * d * r)" "(d * d + r * r - R * R) / (2 * d * r) \<le> 1"
    using acos_arg_bounds [OF pos(2,3) hn] by simp_all
  show "- 1 \<le> (d * d + R * R - r * r) / (2 * d * R)" "(d * d + R * R - r * r) / (2 * d * R) \<le> 1"
    using acos_arg_bounds [OF pos(1,3) hn'] by simp_all
  show "area_intersect (Scalar (Fin R)) (Scalar (Fin r)) (Scalar (Fin d)) = Inr [Fin (lens R r d)]"
    using a raw_area_Fin [OF pos rng]
    by (simp add: area_intersect_Scalar area_intersect_elem_Fin)
qed

theorem lens_arguments_witness:
  "\<not> (- 1 \<le> ((3::real) * 3 + 1 * 1 - 1 * 1) / (2 * 3 * 1) \<and> ((3::real) * 3 + 1 * 1 - 1 * 1) / (2 * 3 * 1) \<le> 1
        \<and> - 1 \<le> ((3::real) * 3 + 1 * 1 - 1 * 1) / (2 * 3 * 1) \<and> ((3::real) * 3 + 1 * 1 - 1 * 1) / (2 * 3 * 1) \<le> 1)
   \<and> raw_area (Fin 1) (Fin 1) (Fin 3) = NaN
   \<and> (0::real) \<le> 1 \<and> \<not> (1::real) \<le> \<bar>1 - 1\<bar> \<and> \<not> (1::real) + 1 < 1
   \<and> area_intersect (Scalar (Fin 1)) (Scalar (Fin 1)) (Scalar (Fin 1)) = Inr [Fin (lens 1 1 1)]"
  using lens_arguments [of 3 1 1] lens_arguments [of 1 1 1] by simp

section \<open>Rounding against the exact reading\<close>













end
